theory Spec2Isabelle
  imports Complex_Main
begin

section \<open>Polytope models built by Wythoff's construction (polytopes/models.py)\<close>

text \<open>
  The classes of \<^verbatim>\<open>models.py\<close> are embedded as functions on a record of the
  instance attributes. A method that mutates \<^verbatim>\<open>self\<close> takes the record and returns
  the updated one; a raised exception is the \<open>Inl\<close> branch of the result.

  Three collaborators are imported by the module and are not part of it: the
  \<^verbatim>\<open>helpers\<close> functions that turn a Coxeter diagram into a matrix, mirrors,
  reflections and an initial point, the coset enumerator \<^verbatim>\<open>CosetTable\<close>, and
  \<^verbatim>\<open>numpy.dot\<close>. They are the fields of the record \<open>env\<close>, which every function
  takes as a parameter, so that each result holds for whatever these collaborators
  compute. A call to them is taken to return.
\<close>

subsection \<open>Exceptions\<close>

datatype error = ValueError string | IndexError | TypeError

definition ebind :: "error + 'a \<Rightarrow> ('a \<Rightarrow> error + 'b) \<Rightarrow> error + 'b" where
  "ebind m f = (case m of Inl e \<Rightarrow> Inl e | Inr x \<Rightarrow> f x)"

text \<open>A comprehension or a loop that collects results: the first exception ends it.\<close>

fun emap :: "('a \<Rightarrow> error + 'b) \<Rightarrow> 'a list \<Rightarrow> error + 'b list" where
  "emap f [] = Inr []"
| "emap f (x # xs) = ebind (f x) (\<lambda>y. ebind (emap f xs) (\<lambda>ys. Inr (y # ys)))"

text \<open>A loop that threads the object through its iterations.\<close>

fun efold :: "('a \<Rightarrow> 's \<Rightarrow> error + 's) \<Rightarrow> 'a list \<Rightarrow> 's \<Rightarrow> error + 's" where
  "efold f [] s = Inr s"
| "efold f (x # xs) s = ebind (f x s) (efold f xs)"

text \<open>\<^verbatim>\<open>xs[i]\<close> for an index that is not negative: out of range raises IndexError.\<close>

definition py_index :: "'a list \<Rightarrow> nat \<Rightarrow> error + 'a" where
  "py_index xs i = (if i < length xs then Inr (xs ! i) else Inl IndexError)"

text \<open>\<^verbatim>\<open>xs[-1]\<close>.\<close>

definition py_last :: "'a list \<Rightarrow> error + 'a" where
  "py_last xs = (if xs = [] then Inl IndexError else Inr (last xs))"

text \<open>\<^verbatim>\<open>t * n\<close> for a tuple \<open>t\<close>: \<open>n\<close> copies, none when \<open>n\<close> is not positive.\<close>

definition tuple_times :: "'a list \<Rightarrow> int \<Rightarrow> 'a list" where
  "tuple_times t n = concat (replicate (nat n) t)"

text \<open>\<^verbatim>\<open>itertools.combinations(xs, 2)\<close>, in its lexicographic order of positions.\<close>

fun combinations2 :: "'a list \<Rightarrow> ('a \<times> 'a) list" where
  "combinations2 [] = []"
| "combinations2 (x # xs) = map (Pair x) xs @ combinations2 xs"

subsection \<open>The collaborators and the instance attributes\<close>

type_synonym word = "nat list"
type_synonym vec = "real list"
type_synonym mat = "real list list"

text \<open>
  A coset table after \<^verbatim>\<open>run()\<close>: the words \<^verbatim>\<open>get_words()\<close> returns and the
  lookup \<^verbatim>\<open>table[coset][generator]\<close>.
\<close>

record coset_table =
  get_words :: "word list"
  table_at :: "nat \<Rightarrow> nat \<Rightarrow> nat"

text \<open>
  Diagram entries are integers or fractions, distances and coordinates are numbers;
  the arithmetic on coordinates lives in \<open>np_dot\<close> and in the projection only.
  \<open>CosetTable gens rels subgens coxeter\<close> stands for building the table and running it.
\<close>

record env =
  get_coxeter_matrix :: "rat list \<Rightarrow> int list list"
  get_mirrors :: "rat list \<Rightarrow> vec list"
  reflection_matrix :: "vec \<Rightarrow> mat"
  get_init_point :: "vec list \<Rightarrow> real list \<Rightarrow> vec"
  np_dot :: "vec \<Rightarrow> mat \<Rightarrow> vec"
  CosetTable :: "nat list \<Rightarrow> word list \<Rightarrow> word list \<Rightarrow> bool \<Rightarrow> coset_table"

text \<open>
  The attributes of a polytope object. \<open>vwords\<close> and \<open>rotations\<close> do not exist
  before \<^verbatim>\<open>get_vertices\<close> resp. outside the snub classes: they are \<open>None\<close> then.
  \<open>rotations\<close> is a dictionary in insertion order.
\<close>

record polytope =
  coxeter_matrix :: "int list list"
  mirrors :: "vec list"
  reflections :: "mat list"
  init_v :: vec
  active :: "bool list"
  symmetry_gens :: "nat list"
  symmetry_rels :: "word list"
  vtable :: "coset_table option"
  vwords :: "word list option"
  num_vertices :: nat
  num_edges :: nat
  num_faces :: nat
  vertices_coords :: "vec list"
  edge_indices :: "(nat \<times> nat) list list"
  face_indices :: "nat list list list"
  rotations :: "(word \<times> int) list option"

subsection \<open>Constructors\<close>

text \<open>\<^verbatim>\<open>coxeter_matrix[i][j]\<close>\<close>

definition matrix_at :: "int list list \<Rightarrow> nat \<Rightarrow> nat \<Rightarrow> error + int" where
  "matrix_at M i j = ebind (py_index M i) (\<lambda>row. py_index row j)"

definition BasePolytope_init ::
  "env \<Rightarrow> rat list \<Rightarrow> real list \<Rightarrow> word list \<Rightarrow> error + polytope" where
  "BasePolytope_init E coxeter_diagram init_dist extra_relations =
    (let cm = get_coxeter_matrix E coxeter_diagram;
         ms = get_mirrors E coxeter_diagram;
         gens = [0..<length cm]
     in ebind (emap (\<lambda>(i, j). ebind (matrix_at cm i j) (\<lambda>m. Inr (tuple_times [i, j] m)))
                 (combinations2 gens))
          (\<lambda>rels. Inr \<lparr>
             coxeter_matrix = cm,
             mirrors = ms,
             reflections = map (reflection_matrix E) ms,
             init_v = get_init_point E ms init_dist,
             active = map (\<lambda>x. x \<noteq> 0) init_dist,
             symmetry_gens = gens,
             symmetry_rels = rels @ extra_relations,
             vtable = None,
             vwords = None,
             num_vertices = 0,
             num_edges = 0,
             num_faces = 0,
             vertices_coords = [],
             edge_indices = [],
             face_indices = [],
             rotations = None \<rparr>))"

definition Polyhedra_init ::
  "env \<Rightarrow> rat list \<Rightarrow> real list \<Rightarrow> word list \<Rightarrow> error + polytope" where
  "Polyhedra_init E coxeter_diagram init_dist extra_relations =
    (if \<not> (length coxeter_diagram = length init_dist \<and> length init_dist = 3)
     then Inl (ValueError ''Length error: the inputs must all have length 3'')
     else BasePolytope_init E coxeter_diagram init_dist extra_relations)"

definition Polychora_init ::
  "env \<Rightarrow> rat list \<Rightarrow> real list \<Rightarrow> word list \<Rightarrow> error + polytope" where
  "Polychora_init E coxeter_diagram init_dist extra_relations =
    (if \<not> (length coxeter_diagram = 6 \<and> length init_dist = 4)
     then Inl (ValueError
       ''Length error: the input coxeter_diagram must have length 6 and init_dist has length 4'')
     else BasePolytope_init E coxeter_diagram init_dist extra_relations)"

definition Polytope5D_init ::
  "env \<Rightarrow> rat list \<Rightarrow> real list \<Rightarrow> word list \<Rightarrow> error + polytope" where
  "Polytope5D_init E coxeter_diagram init_dist extra_relations =
    (if length coxeter_diagram \<noteq> 10 \<and> length init_dist \<noteq> 5
     then Inl (ValueError
       ''Length error: the input coxeter_diagram must have length 10 and init_dist has length 5'')
     else BasePolytope_init E coxeter_diagram init_dist extra_relations)"

text \<open>
  \<^verbatim>\<open>Snub.__init__\<close>: the relations and the rotation orders are read from the
  matrix, in the order the two tuple/dict displays evaluate their entries.
\<close>

definition Snub_init :: "env \<Rightarrow> rat list \<Rightarrow> real list \<Rightarrow> error + polytope" where
  "Snub_init E coxeter_diagram init_dist =
    ebind (Polyhedra_init E coxeter_diagram init_dist []) (\<lambda>P.
    ebind (matrix_at (coxeter_matrix P) 0 1) (\<lambda>p.
    ebind (matrix_at (coxeter_matrix P) 1 2) (\<lambda>q.
    ebind (matrix_at (coxeter_matrix P) 0 2) (\<lambda>m.
      Inr (P\<lparr> symmetry_gens := [0, 1, 2, 3],
               symmetry_rels := [tuple_times [0] p, tuple_times [2] q, tuple_times [0, 2] m,
                                 [0, 1], [2, 3]],
               rotations := Some [([0], p), ([2], q), ([0, 2], m)] \<rparr>)))))"

definition Snub24Cell_init :: "env \<Rightarrow> error + polytope" where
  "Snub24Cell_init E =
    ebind (Polychora_init E [3, 2, 2, 3, 3, 2] [1, 1, 1, 1] []) (\<lambda>P.
      Inr (P\<lparr> symmetry_gens := [0..<6],
               symmetry_rels := [tuple_times [0] 3, tuple_times [2] 3, tuple_times [4] 3,
                                 tuple_times [0, 2] 2, tuple_times [0, 4] 2, tuple_times [3, 4] 2,
                                 [0, 1], [2, 3], [4, 5]],
               rotations := Some [([0], 3), ([2], 3), ([4], 3),
                                  ([0, 2], 2), ([0, 4], 2), ([3, 4], 2)] \<rparr>))"

subsection \<open>Transform and move\<close>

text \<open>\<^verbatim>\<open>BasePolytope.transform\<close>: one product with a reflection per generator.\<close>

fun transform :: "env \<Rightarrow> polytope \<Rightarrow> vec \<Rightarrow> word \<Rightarrow> error + vec" where
  "transform E P vector [] = Inr vector"
| "transform E P vector (w # word) =
     ebind (py_index (reflections P) w) (\<lambda>r. transform E P (np_dot E vector r) word)"

text \<open>
  \<^verbatim>\<open>BasePolytope.move\<close>: one table lookup per generator. Subscripting the table
  before \<^verbatim>\<open>get_vertices\<close> has set it (it is \<^verbatim>\<open>None\<close>) raises TypeError.
\<close>

fun move :: "polytope \<Rightarrow> nat \<Rightarrow> word \<Rightarrow> error + nat" where
  "move P vertex [] = Inr vertex"
| "move P vertex (w # word) =
     (case vtable P of
        None \<Rightarrow> Inl TypeError
      | Some t \<Rightarrow> move P (table_at t vertex w) word)"

text \<open>\<^verbatim>\<open>Snub.transform\<close>\<close>

fun Snub_transform :: "env \<Rightarrow> polytope \<Rightarrow> vec \<Rightarrow> word \<Rightarrow> error + vec" where
  "Snub_transform E P vertex [] = Inr vertex"
| "Snub_transform E P vertex (g # word) =
     (if g = 0
      then ebind (py_index (reflections P) 0) (\<lambda>r0.
           ebind (py_index (reflections P) 1) (\<lambda>r1.
             Snub_transform E P (np_dot E (np_dot E vertex r0) r1) word))
      else ebind (py_index (reflections P) 1) (\<lambda>r1.
           ebind (py_index (reflections P) 2) (\<lambda>r2.
             Snub_transform E P (np_dot E (np_dot E vertex r1) r2) word)))"

text \<open>\<^verbatim>\<open>Snub24Cell.transform\<close>\<close>

fun Snub24Cell_transform :: "env \<Rightarrow> polytope \<Rightarrow> vec \<Rightarrow> word \<Rightarrow> error + vec" where
  "Snub24Cell_transform E P vertex [] = Inr vertex"
| "Snub24Cell_transform E P vertex (g # word) =
     (if g = 0
      then ebind (py_index (reflections P) 0) (\<lambda>r0.
           ebind (py_index (reflections P) 1) (\<lambda>r1.
             Snub24Cell_transform E P (np_dot E (np_dot E vertex r0) r1) word))
      else if g = 2
      then ebind (py_index (reflections P) 1) (\<lambda>r1.
           ebind (py_index (reflections P) 2) (\<lambda>r2.
             Snub24Cell_transform E P (np_dot E (np_dot E vertex r1) r2) word))
      else ebind (py_index (reflections P) 1) (\<lambda>r1.
           ebind (py_index (reflections P) 3) (\<lambda>r3.
             Snub24Cell_transform E P (np_dot E (np_dot E vertex r1) r3) word)))"

subsection \<open>Orthogonal stabilizing mirrors\<close>

text \<open>
  \<^verbatim>\<open>all(self.coxeter_matrix[x][s] == 2 for x in subgens)\<close>: the generator
  expression is consumed up to the first entry that is not 2.
\<close>

fun all_commute :: "int list list \<Rightarrow> nat list \<Rightarrow> nat \<Rightarrow> error + bool" where
  "all_commute M [] s = Inr True"
| "all_commute M (x # xs) s =
     ebind (matrix_at M x s) (\<lambda>m. if m = 2 then all_commute M xs s else Inr False)"

definition osm_step :: "polytope \<Rightarrow> nat list \<Rightarrow> nat \<Rightarrow> word list \<Rightarrow> error + word list" where
  "osm_step P subgens s result =
     ebind (all_commute (coxeter_matrix P) subgens s) (\<lambda>c.
       if c
       then ebind (py_index (active P) s) (\<lambda>a. if \<not> a then Inr (result @ [[s]]) else Inr result)
       else Inr result)"

definition get_orthogonal_stabilizing_mirrors :: "polytope \<Rightarrow> nat list \<Rightarrow> error + word list" where
  "get_orthogonal_stabilizing_mirrors P subgens =
     efold (osm_step P subgens) (symmetry_gens P) []"

subsection \<open>Vertices, edges and faces of the Coxeter case\<close>

definition get_vertices :: "env \<Rightarrow> polytope \<Rightarrow> error + polytope" where
  "get_vertices E P =
    (let vgens = map (\<lambda>(i, a). [i]) (filter (\<lambda>(i, a). \<not> a) (enumerate 0 (active P)));
         t = CosetTable E (symmetry_gens P) (symmetry_rels P) vgens True;
         ws = get_words t;
         P1 = P\<lparr> vtable := Some t, vwords := Some ws, num_vertices := length ws \<rparr>
     in ebind (emap (transform E P1 (init_v P1)) ws)
          (\<lambda>coords. Inr (P1\<lparr> vertices_coords := coords \<rparr>)))"

text \<open>The body of the loop of \<^verbatim>\<open>get_edges\<close> for an active mirror \<open>i\<close>.\<close>

definition edges_of_type :: "env \<Rightarrow> nat \<Rightarrow> polytope \<Rightarrow> error + polytope" where
  "edges_of_type E i P =
     ebind (get_orthogonal_stabilizing_mirrors P [i]) (\<lambda>osm.
       let egens = [i] # osm;
           etable = CosetTable E (symmetry_gens P) (symmetry_rels P) egens True;
           words = get_words etable
       in ebind (emap (\<lambda>word. ebind (move P 0 word) (\<lambda>v1.
                                 ebind (move P 0 (i # word)) (\<lambda>v2. Inr (v1, v2)))) words)
            (\<lambda>elist. Inr (P\<lparr> edge_indices := edge_indices P @ [elist],
                              num_edges := num_edges P + length elist \<rparr>)))"

definition get_edges :: "env \<Rightarrow> polytope \<Rightarrow> error + polytope" where
  "get_edges E P =
     efold (\<lambda>(i, a) Q. if a then edges_of_type E i Q else Inr Q) (enumerate 0 (active P)) P"






subsection \<open>The 5D projection\<close>

text \<open>
  \<^verbatim>\<open>Polytope5D.proj4d\<close>. \<^verbatim>\<open>v[-1]\<close> of an empty vector raises IndexError; the
  division is the exact one.
\<close>

definition proj4d :: "polytope \<Rightarrow> real \<Rightarrow> error + polytope" where
  "proj4d P pole =
     ebind (emap (\<lambda>v. ebind (py_last v) (\<lambda>z. Inr (map (\<lambda>x. x / (13 / 10 - z)) (take 4 v))))
              (vertices_coords P))
       (\<lambda>coords. Inr (P\<lparr> vertices_coords := coords \<rparr>))"

subsection \<open>The specification's reading of the orbits\<close>

text \<open>
  The definitions of this subsection follow the specification's words, not the code:
  they are what the functions above are compared with. Lookups are total here;
  the theorems say when the code's lookups succeed.
\<close>

definition move_t :: "coset_table \<Rightarrow> nat \<Rightarrow> word \<Rightarrow> nat" where
  "move_t t v w = foldl (table_at t) v w"

definition spec_transform :: "env \<Rightarrow> polytope \<Rightarrow> vec \<Rightarrow> word \<Rightarrow> vec" where
  "spec_transform E P v w = foldl (\<lambda>u g. np_dot E u (reflections P ! g)) v w"

text \<open>
  The presentation's reading of the snub generators: \<open>r = \<rho>0 \<rho>1\<close>, \<open>s = \<rho>1 \<rho>2\<close>,
  \<open>t = \<rho>1 \<rho>3\<close> are the generators 0, 2, 4, and the generators 1, 3, 5 are their
  inverses, the same reflections in the opposite order.
\<close>

definition spec_rotation_word :: "nat \<Rightarrow> word" where
  "spec_rotation_word g =
     (if g = 0 then [0, 1] else if g = 1 then [1, 0]
      else if g = 2 then [1, 2] else if g = 3 then [2, 1]
      else if g = 4 then [1, 3] else if g = 5 then [3, 1] else [])"

definition spec_osm :: "polytope \<Rightarrow> nat list \<Rightarrow> word list" where
  "spec_osm P S =
     map (\<lambda>s. [s])
       (filter (\<lambda>s. list_all (\<lambda>x. coxeter_matrix P ! x ! s = 2) S \<and> \<not> active P ! s)
          (symmetry_gens P))"

definition spec_edge_orbit :: "env \<Rightarrow> polytope \<Rightarrow> coset_table \<Rightarrow> nat \<Rightarrow> (nat \<times> nat) list" where
  "spec_edge_orbit E P t i =
     map (\<lambda>w. (move_t t 0 w, move_t t 0 (i # w)))
       (get_words (CosetTable E (symmetry_gens P) (symmetry_rels P) ([i] # spec_osm P [i]) True))"




text \<open>
  The shape the Coxeter case relies on: a square matrix, one flag per mirror, and
  generators that index the matrix.
\<close>

definition coxeter_shape :: "polytope \<Rightarrow> bool" where
  "coxeter_shape P =
     (list_all (\<lambda>row. length row = length (coxeter_matrix P)) (coxeter_matrix P)
      \<and> length (active P) = length (coxeter_matrix P)
      \<and> list_all (\<lambda>s. s < length (coxeter_matrix P)) (symmetry_gens P))"

subsection \<open>A concrete environment: the tetrahedral group\<close>

text \<open>
  An instance of the collaborators, used to evaluate the functions on concrete input.
  The matrix is the diagram's numerators filled into the upper triangle. The geometry
  is that of the diagram \<open>(3, 2, 3)\<close> in coordinates where the mirrors are the planes
  \<open>x = y\<close>, \<open>y = z\<close> and \<open>x = -y\<close>; the coset tables are those of the symmetric
  group on four points, for the subgroups the tetrahedron with distances \<open>(1, 0, 0)\<close>
  asks for.
\<close>

definition example_matrix :: "rat list \<Rightarrow> int list list" where
  "example_matrix cd =
     (case map (\<lambda>x. fst (quotient_of x)) cd of
        [a, b, c] \<Rightarrow> [[1, a, b], [a, 1, c], [b, c, 1]]
      | [a, b, c, d, e, f] \<Rightarrow> [[1, a, b, c], [a, 1, d, e], [b, d, 1, f], [c, e, f, 1]]
      | _ \<Rightarrow> [])"

definition example_reflection :: "vec \<Rightarrow> mat" where
  "example_reflection v =
     (if v = [1, -1, 0] then [[0, 1, 0], [1, 0, 0], [0, 0, 1]]
      else if v = [0, 1, -1] then [[1, 0, 0], [0, 0, 1], [0, 1, 0]]
      else [[0, -1, 0], [-1, 0, 0], [0, 0, 1]])"

text \<open>The product of a row vector with a matrix: the sum of the rows scaled by the entries.\<close>

fun vec_mat :: "vec \<Rightarrow> mat \<Rightarrow> vec" where
  "vec_mat [x] [r] = map ((*) x) r"
| "vec_mat (x # xs) (r # rs) = map2 (+) (map ((*) x) r) (vec_mat xs rs)"
| "vec_mat xs rs = []"

definition table_of :: "word list \<Rightarrow> nat list list \<Rightarrow> coset_table" where
  "table_of ws rows = \<lparr> get_words = ws, table_at = (\<lambda>v g. rows ! v ! g) \<rparr>"

definition example_CosetTable :: "nat list \<Rightarrow> word list \<Rightarrow> word list \<Rightarrow> bool \<Rightarrow> coset_table" where
  "example_CosetTable gens rels subgens coxeter =
     (if subgens = [[1], [2]]
      then table_of [[], [0], [0, 1], [0, 1, 2]] [[1, 0, 0], [0, 2, 1], [2, 1, 3], [3, 3, 2]]
      else if subgens = [[0], [2]]
      then table_of [[], [1], [1, 0], [1, 2], [1, 0, 2], [1, 0, 2, 1]]
             [[0, 1, 0], [2, 0, 3], [1, 2, 4], [4, 3, 1], [3, 5, 2], [5, 4, 5]]
      else if subgens = [[0], [1]]
      then table_of [[], [2], [2, 1], [2, 1, 0]] [[0, 0, 1], [1, 2, 0], [3, 1, 2], [2, 3, 3]]
      else table_of [[]] [[0, 0, 0]])"

definition example_env :: env where
  "example_env = \<lparr>
     get_coxeter_matrix = example_matrix,
     get_mirrors = (\<lambda>cd. [[1, -1, 0], [0, 1, -1], [1, 1, 0]]),
     reflection_matrix = example_reflection,
     get_init_point = (\<lambda>ms d. case d of
         [d0, d1, d2] \<Rightarrow> [(d0 + d2) / 2, (d2 - d0) / 2, (d2 - d0) / 2 - d1]
       | _ \<Rightarrow> []),
     np_dot = vec_mat,
     CosetTable = example_CosetTable \<rparr>"

text \<open>The tetrahedron \<open>(3, 2, 3)\<close>, \<open>(1, 0, 0)\<close> after \<^verbatim>\<open>get_vertices\<close>.\<close>

definition tetrahedron :: polytope where
  "tetrahedron = \<lparr>
     coxeter_matrix = [[1, 3, 2], [3, 1, 3], [2, 3, 1]],
     mirrors = [[1, -1, 0], [0, 1, -1], [1, 1, 0]],
     reflections = [[[0, 1, 0], [1, 0, 0], [0, 0, 1]],
                    [[1, 0, 0], [0, 0, 1], [0, 1, 0]],
                    [[0, -1, 0], [-1, 0, 0], [0, 0, 1]]],
     init_v = [1 / 2, - 1 / 2, - 1 / 2],
     active = [True, False, False],
     symmetry_gens = [0, 1, 2],
     symmetry_rels = [[0, 1, 0, 1, 0, 1], [0, 2, 0, 2], [1, 2, 1, 2, 1, 2]],
     vtable = Some (table_of [[], [0], [0, 1], [0, 1, 2]]
                      [[1, 0, 0], [0, 2, 1], [2, 1, 3], [3, 3, 2]]),
     vwords = Some [[], [0], [0, 1], [0, 1, 2]],
     num_vertices = 4,
     num_edges = 0,
     num_faces = 0,
     vertices_coords = [[1 / 2, - 1 / 2, - 1 / 2], [- 1 / 2, 1 / 2, - 1 / 2],
                        [- 1 / 2, - 1 / 2, 1 / 2], [1 / 2, 1 / 2, 1 / 2]],
     edge_indices = [],
     face_indices = [],
     rotations = None \<rparr>"

text \<open>
  A second instance, for the hard-coded diagram \<open>(3, 2, 2, 3, 3, 2)\<close> of the snub
  24-cell: the mirrors are the hyperplanes \<open>x1 = x2\<close>, \<open>x2 = x3\<close>, \<open>x3 = x4\<close> and
  \<open>x3 = -x4\<close> of four-space, and the initial point has the distances \<open>(1, 1, 1, 1)\<close>
  along their normals.
\<close>

definition example_reflection4 :: "vec \<Rightarrow> mat" where
  "example_reflection4 v =
     (if v = [1, -1, 0, 0] then [[0, 1, 0, 0], [1, 0, 0, 0], [0, 0, 1, 0], [0, 0, 0, 1]]
      else if v = [0, 1, -1, 0] then [[1, 0, 0, 0], [0, 0, 1, 0], [0, 1, 0, 0], [0, 0, 0, 1]]
      else if v = [0, 0, 1, -1] then [[1, 0, 0, 0], [0, 1, 0, 0], [0, 0, 0, 1], [0, 0, 1, 0]]
      else [[1, 0, 0, 0], [0, 1, 0, 0], [0, 0, 0, -1], [0, 0, -1, 0]])"

definition example_env4 :: env where
  "example_env4 = \<lparr>
     get_coxeter_matrix = example_matrix,
     get_mirrors = (\<lambda>cd. [[1, -1, 0, 0], [0, 1, -1, 0], [0, 0, 1, -1], [0, 0, 1, 1]]),
     reflection_matrix = example_reflection4,
     get_init_point = (\<lambda>ms d. case d of
         [d0, d1, d2, d3] \<Rightarrow>
           [d0 + d1 + (d2 + d3) / 2, d1 + (d2 + d3) / 2, (d2 + d3) / 2, (d3 - d2) / 2]
       | _ \<Rightarrow> []),
     np_dot = vec_mat,
     CosetTable = example_CosetTable \<rparr>"

text \<open>The snub 24-cell object that \<^verbatim>\<open>Snub24Cell.__init__\<close> builds in this instance.\<close>

definition snub24cell :: polytope where
  "snub24cell = \<lparr>
     coxeter_matrix = [[1, 3, 2, 2], [3, 1, 3, 3], [2, 3, 1, 2], [2, 3, 2, 1]],
     mirrors = [[1, -1, 0, 0], [0, 1, -1, 0], [0, 0, 1, -1], [0, 0, 1, 1]],
     reflections = [[[0, 1, 0, 0], [1, 0, 0, 0], [0, 0, 1, 0], [0, 0, 0, 1]],
                    [[1, 0, 0, 0], [0, 0, 1, 0], [0, 1, 0, 0], [0, 0, 0, 1]],
                    [[1, 0, 0, 0], [0, 1, 0, 0], [0, 0, 0, 1], [0, 0, 1, 0]],
                    [[1, 0, 0, 0], [0, 1, 0, 0], [0, 0, 0, -1], [0, 0, -1, 0]]],
     init_v = [3, 2, 1, 0],
     active = [True, True, True, True],
     symmetry_gens = [0, 1, 2, 3, 4, 5],
     symmetry_rels = [[0, 0, 0], [2, 2, 2], [4, 4, 4],
                      [0, 2, 0, 2], [0, 4, 0, 4], [3, 4, 3, 4],
                      [0, 1], [2, 3], [4, 5]],
     vtable = None,
     vwords = None,
     num_vertices = 0,
     num_edges = 0,
     num_faces = 0,
     vertices_coords = [],
     edge_indices = [],
     face_indices = [],
     rotations = Some [([0], 3), ([2], 3), ([4], 3), ([0, 2], 2), ([0, 4], 2), ([3, 4], 2)] \<rparr>"

section \<open>Properties\<close>

subsection \<open>Exceptions and lookups\<close>

lemma ebind_Inl [simp]: "ebind (Inl e) f = Inl e"
  by (simp add: ebind_def)

lemma ebind_Inr [simp]: "ebind (Inr x) f = f x"
  by (simp add: ebind_def)

lemma ebind_eq_Inl: "ebind m f = Inl e \<longleftrightarrow> (m = Inl e \<or> (\<exists>x. m = Inr x \<and> f x = Inl e))"
  by (cases m) simp_all

lemma py_index_in [simp]: "i < length xs \<Longrightarrow> py_index xs i = Inr (xs ! i)"
  by (simp add: py_index_def)

lemma py_index_Inl: "py_index xs i = Inl e \<Longrightarrow> e = IndexError"
  by (simp add: py_index_def split: if_splits)

lemma matrix_at_Inl: "matrix_at M i j = Inl e \<Longrightarrow> e = IndexError"
  by (auto simp: matrix_at_def ebind_eq_Inl dest: py_index_Inl)

lemma emap_Inl: "emap f xs = Inl e \<Longrightarrow> \<exists>x \<in> set xs. f x = Inl e"
  by (induction xs) (auto simp: ebind_eq_Inl)

lemma BasePolytope_init_Inl:
  "BasePolytope_init E cd d ex = Inl e \<Longrightarrow> e = IndexError"
  by (auto simp: BasePolytope_init_def Let_def ebind_eq_Inl dest!: emap_Inl matrix_at_Inl)

subsection \<open>The concrete environment evaluated\<close>

lemma example_matrix_323: "example_matrix [3, 2, 3] = [[1, 3, 2], [3, 1, 3], [2, 3, 1]]"
  by (simp add: example_matrix_def)

lemma example_matrix_234: "example_matrix [2, 3, 4] = [[1, 2, 3], [2, 1, 4], [3, 4, 1]]"
  by (simp add: example_matrix_def)

lemma example_matrix_D4:
  "example_matrix [3, 2, 2, 3, 3, 2] = [[1, 3, 2, 2], [3, 1, 3, 3], [2, 3, 1, 2], [2, 3, 2, 1]]"
  by (simp add: example_matrix_def)

lemma tetrahedron_init:
  "BasePolytope_init example_env [3, 2, 3] [1, 0, 0] [] =
     Inr (tetrahedron\<lparr>vtable := None, vwords := None, num_vertices := 0, vertices_coords := []\<rparr>)"
  by (simp add: BasePolytope_init_def example_env_def example_matrix_323 Let_def matrix_at_def
        tuple_times_def tetrahedron_def example_reflection_def eval_nat_numeral)

subsection \<open>Length checks of the constructors\<close>

text \<open>
  Claim C9. \<^verbatim>\<open>Polyhedra.__init__\<close> raises a ValueError if and only if the diagram or
  the distance vector does not have length 3, and \<^verbatim>\<open>Polychora.__init__\<close> raises one
  if and only if the diagram does not have length 6 or the distance vector does not have
  length 4; otherwise each is the construction of the base class.
\<close>

theorem constructors_length_check:
  "((\<exists>msg. Polyhedra_init E cd d ex = Inl (ValueError msg)) \<longleftrightarrow> (length cd \<noteq> 3 \<or> length d \<noteq> 3))
  \<and> (length cd = 3 \<and> length d = 3 \<longrightarrow> Polyhedra_init E cd d ex = BasePolytope_init E cd d ex)
  \<and> ((\<exists>msg. Polychora_init E cd d ex = Inl (ValueError msg)) \<longleftrightarrow> (length cd \<noteq> 6 \<or> length d \<noteq> 4))
  \<and> (length cd = 6 \<and> length d = 4 \<longrightarrow> Polychora_init E cd d ex = BasePolytope_init E cd d ex)"
  by (auto simp: Polyhedra_init_def Polychora_init_def dest: BasePolytope_init_Inl)

theorem constructors_length_check_witness:
  "(\<exists>msg. Polyhedra_init example_env [3, 2, 3] [1, 0] [] = Inl (ValueError msg))
   \<and> Polyhedra_init example_env [3, 2, 3] [1, 0, 0] [] =
       Inr (tetrahedron\<lparr>vtable := None, vwords := None, num_vertices := 0, vertices_coords := []\<rparr>)
   \<and> (\<exists>msg. Polychora_init example_env [3, 2, 3] [1, 0, 0] [] = Inl (ValueError msg))"
  using constructors_length_check [of example_env "[3, 2, 3]" "[1, 0]" "[]"]
    constructors_length_check [of example_env "[3, 2, 3]" "[1, 0, 0]" "[]"]
  by (simp add: tetrahedron_init)

text \<open>
  Claim C5. \<^verbatim>\<open>Polytope5D.__init__\<close> is claimed to raise the length error whenever
  the diagram does not have length 10 or the distance vector does not have length 5.
  Its test joins the two inequalities with \<^verbatim>\<open>and\<close>: for a diagram of length 10 and
  four distances nothing is raised by the check, and the construction of the base class
  is entered.
\<close>

theorem Polytope5D_init_one_length_wrong:
  "Polytope5D_init E [3, 2, 2, 2, 3, 2, 2, 3, 2, 3] [1, 0, 0, 0] ex
     = BasePolytope_init E [3, 2, 2, 2, 3, 2, 2, 3, 2, 3] [1, 0, 0, 0] ex
   \<and> Polytope5D_init E [3, 2, 2, 2, 3, 2, 2, 3, 2, 3] [1, 0, 0, 0] ex
     \<noteq> Inl (ValueError
       ''Length error: the input coxeter_diagram must have length 10 and init_dist has length 5'')"
  using BasePolytope_init_Inl [of E "[3, 2, 2, 2, 3, 2, 2, 3, 2, 3]" "[1, 0, 0, 0]" ex]
  by (auto simp: Polytope5D_init_def)

subsection \<open>Presentations of the snub classes\<close>

text \<open>
  Claim C8. When the construction of the base class succeeds, \<^verbatim>\<open>Snub24Cell.__init__\<close>
  returns an object whose generators are \<open>0, \<dots>, 5\<close> and whose relations are exactly the
  nine words for \<open>r^3, s^3, t^3, (rs)^2, (rt)^2, (s\<^sup>-\<^sup>1 t)^2\<close> and the three inverse pairs;
  \<open>(s\<^sup>-\<^sup>1 t)^2\<close> is the word \<open>(3, 4, 3, 4)\<close>.
\<close>

theorem Snub24Cell_init_presentation:
  assumes "BasePolytope_init E [3, 2, 2, 3, 3, 2] [1, 1, 1, 1] [] = Inr P0"
  shows "\<exists>P. Snub24Cell_init E = Inr P
          \<and> symmetry_gens P = [0, 1, 2, 3, 4, 5]
          \<and> symmetry_rels P = [[0, 0, 0], [2, 2, 2], [4, 4, 4],
                               [0, 2, 0, 2], [0, 4, 0, 4], [3, 4, 3, 4],
                               [0, 1], [2, 3], [4, 5]]
          \<and> length (symmetry_rels P) = 9"
  using assms
  by (simp add: Snub24Cell_init_def Polychora_init_def tuple_times_def eval_nat_numeral upt_rec)

theorem Snub24Cell_init_presentation_witness:
  "\<exists>P. Snub24Cell_init example_env = Inr P
          \<and> symmetry_gens P = [0, 1, 2, 3, 4, 5]
          \<and> symmetry_rels P = [[0, 0, 0], [2, 2, 2], [4, 4, 4],
                               [0, 2, 0, 2], [0, 4, 0, 4], [3, 4, 3, 4],
                               [0, 1], [2, 3], [4, 5]]
          \<and> length (symmetry_rels P) = 9"
proof -
  have "\<exists>P0. BasePolytope_init example_env [3, 2, 2, 3, 3, 2] [1, 1, 1, 1] [] = Inr P0"
    by (simp add: BasePolytope_init_def example_env_def example_matrix_D4 Let_def matrix_at_def)
  then obtain P0 where "BasePolytope_init example_env [3, 2, 2, 3, 3, 2] [1, 1, 1, 1] [] = Inr P0" ..
  from Snub24Cell_init_presentation [OF this] show ?thesis .
qed

text \<open>
  Claim C7, as the code has it. When the construction of the polyhedron succeeds and the
  matrix has the entries \<open>p = matrix[0][1]\<close>, \<open>q = matrix[1][2]\<close> and
  \<open>m = matrix[0][2]\<close>, the relations \<^verbatim>\<open>Snub.__init__\<close> builds are generator 0
  repeated \<open>p\<close> times, generator 2 repeated \<open>q\<close> times, the pair \<open>(0, 2)\<close> repeated
  \<open>m\<close> times, and the inverse relations \<open>(0, 1)\<close> and \<open>(2, 3)\<close>. The pair is repeated
  twice when \<open>m = 2\<close>, not for every diagram.
\<close>

theorem Snub_init_relations:
  assumes "Polyhedra_init E cd d [] = Inr P0"
    and "matrix_at (coxeter_matrix P0) 0 1 = Inr p"
    and "matrix_at (coxeter_matrix P0) 1 2 = Inr q"
    and "matrix_at (coxeter_matrix P0) 0 2 = Inr m"
  shows "\<exists>P. Snub_init E cd d = Inr P
          \<and> symmetry_rels P = [replicate (nat p) 0, replicate (nat q) 2,
                               concat (replicate (nat m) [0, 2]), [0, 1], [2, 3]]
          \<and> (m = 2 \<longrightarrow> symmetry_rels P ! 2 = [0, 2, 0, 2])"
  using assms
  by (auto simp: Snub_init_def tuple_times_def eval_nat_numeral)

theorem Snub_init_relations_witness:
  "\<exists>P. Snub_init example_env [3, 2, 3] [1, 1, 1] = Inr P
        \<and> symmetry_rels P = [[0, 0, 0], [2, 2, 2], [0, 2, 0, 2], [0, 1], [2, 3]]"
proof -
  obtain P0 where P0: "Polyhedra_init example_env [3, 2, 3] [1, 1, 1] [] = Inr P0"
     and cm: "coxeter_matrix P0 = [[1, 3, 2], [3, 1, 3], [2, 3, 1]]"
    by (simp add: Polyhedra_init_def BasePolytope_init_def example_env_def example_matrix_323
          Let_def matrix_at_def)
  have "matrix_at (coxeter_matrix P0) 0 1 = Inr 3" "matrix_at (coxeter_matrix P0) 1 2 = Inr 3"
       "matrix_at (coxeter_matrix P0) 0 2 = Inr 2"
    by (simp_all add: cm matrix_at_def)
  from Snub_init_relations [OF P0 this] show ?thesis
    by (auto simp: eval_nat_numeral)
qed

text \<open>
  The claim as stated fails for the diagram \<open>(2, 3, 4)\<close>, whose matrix has
  \<open>matrix[0][2] = 3\<close>: the third relation is \<open>(0, 2)\<close> three times.
\<close>

theorem Snub_init_relations_counterexample:
  "map_sum id symmetry_rels (Snub_init example_env [2, 3, 4] [1, 1, 1])
     = Inr [[0, 0], [2, 2, 2, 2], [0, 2, 0, 2, 0, 2], [0, 1], [2, 3]]
   \<and> map_sum id symmetry_rels (Snub_init example_env [2, 3, 4] [1, 1, 1])
     \<noteq> Inr [[0, 0], [2, 2, 2, 2], [0, 2, 0, 2], [0, 1], [2, 3]]"
  by (simp add: Snub_init_def Polyhedra_init_def BasePolytope_init_def example_env_def
        example_matrix_234 Let_def matrix_at_def tuple_times_def eval_nat_numeral)

subsection \<open>Orthogonal stabilizing mirrors, as specified\<close>

lemma emap_Inr: "(\<And>x. x \<in> set xs \<Longrightarrow> f x = Inr (g x)) \<Longrightarrow> emap f xs = Inr (map g xs)"
  by (induction xs) simp_all

lemma enumerate_nth: "enumerate 0 xs = map (\<lambda>i. (i, xs ! i)) [0..<length xs]"
proof (rule nth_equalityI)
  show "length (enumerate 0 xs) = length (map (\<lambda>i. (i, xs ! i)) [0..<length xs])"
    by simp
next
  fix i assume "i < length (enumerate 0 xs)"
  then show "enumerate 0 xs ! i = map (\<lambda>i. (i, xs ! i)) [0..<length xs] ! i"
    by (simp add: nth_enumerate_eq)
qed

lemma matrix_at_in: "i < length M \<Longrightarrow> j < length (M ! i) \<Longrightarrow> matrix_at M i j = Inr (M ! i ! j)"
  by (simp add: matrix_at_def)

lemma all_commute_in:
  "(\<And>x. x \<in> set S \<Longrightarrow> x < length M \<and> s < length (M ! x)) \<Longrightarrow>
     all_commute M S s = Inr (list_all (\<lambda>x. M ! x ! s = 2) S)"
  by (induction S) (simp_all add: matrix_at_in)

lemma coxeter_shape_row:
  "coxeter_shape P \<Longrightarrow> x < length (coxeter_matrix P) \<Longrightarrow>
     length (coxeter_matrix P ! x) = length (coxeter_matrix P)"
  by (simp add: coxeter_shape_def list_all_length)

lemma osm_step_in:
  assumes "coxeter_shape P" and "\<And>x. x \<in> set S \<Longrightarrow> x < length (coxeter_matrix P)"
    and "s < length (coxeter_matrix P)"
  shows "osm_step P S s acc =
     Inr (acc @ map (\<lambda>s. [s])
       (filter (\<lambda>s. list_all (\<lambda>x. coxeter_matrix P ! x ! s = 2) S \<and> \<not> active P ! s) [s]))"
proof -
  have "all_commute (coxeter_matrix P) S s = Inr (list_all (\<lambda>x. coxeter_matrix P ! x ! s = 2) S)"
    using assms by (intro all_commute_in) (simp add: coxeter_shape_row)
  moreover have "s < length (active P)"
    using assms(1,3) by (simp add: coxeter_shape_def)
  ultimately show ?thesis
    by (simp add: osm_step_def)
qed

lemma osm_fold_in:
  assumes "coxeter_shape P" and "\<And>x. x \<in> set S \<Longrightarrow> x < length (coxeter_matrix P)"
  shows "(\<And>s. s \<in> set gs \<Longrightarrow> s < length (coxeter_matrix P)) \<Longrightarrow>
     efold (osm_step P S) gs acc =
     Inr (acc @ map (\<lambda>s. [s])
       (filter (\<lambda>s. list_all (\<lambda>x. coxeter_matrix P ! x ! s = 2) S \<and> \<not> active P ! s) gs))"
proof (induction gs arbitrary: acc)
  case Nil
  then show ?case by simp
next
  case (Cons s gs)
  have "s < length (coxeter_matrix P)" using Cons.prems by simp
  from osm_step_in [OF assms(1) assms(2) this]
  show ?case using Cons by simp
qed

lemma osm_correct:
  assumes "coxeter_shape P" and "\<And>x. x \<in> set S \<Longrightarrow> x < length (coxeter_matrix P)"
  shows "get_orthogonal_stabilizing_mirrors P S = Inr (spec_osm P S)"
proof -
  have gens: "\<And>s. s \<in> set (symmetry_gens P) \<Longrightarrow> s < length (coxeter_matrix P)"
    using assms(1) by (simp add: coxeter_shape_def list_all_iff)
  have "efold (osm_step P S) (symmetry_gens P) [] =
     Inr ([] @ map (\<lambda>s. [s])
       (filter (\<lambda>s. list_all (\<lambda>x. coxeter_matrix P ! x ! s = 2) S \<and> \<not> active P ! s)
          (symmetry_gens P)))"
    by (rule osm_fold_in) (simp_all add: assms gens)
  then show ?thesis
    by (simp add: get_orthogonal_stabilizing_mirrors_def spec_osm_def)
qed

text \<open>
  Claim C4. For a polytope of the Coxeter shape and generators \<open>S\<close> that index the
  matrix, \<^verbatim>\<open>get_orthogonal_stabilizing_mirrors(S)\<close> returns, in the order of the
  generators, exactly the \<open>(s,)\<close> with \<open>matrix[x][s] = 2\<close> for every \<open>x\<close> in \<open>S\<close>
  and \<open>s\<close> inactive; when the diagonal entries are 1, no member of \<open>S\<close> is returned.
\<close>

theorem get_orthogonal_stabilizing_mirrors_exact:
  assumes "coxeter_shape P" and "\<forall>x\<in>set S. x < length (coxeter_matrix P)"
  shows "\<exists>r. get_orthogonal_stabilizing_mirrors P S = Inr r
     \<and> r = map (\<lambda>s. [s])
             (filter (\<lambda>s. (\<forall>x\<in>set S. coxeter_matrix P ! x ! s = 2) \<and> \<not> active P ! s)
                (symmetry_gens P))
     \<and> ((\<forall>x\<in>set S. coxeter_matrix P ! x ! x = 1) \<longrightarrow> (\<forall>x\<in>set S. [x] \<notin> set r))"
proof -
  have "get_orthogonal_stabilizing_mirrors P S = Inr (spec_osm P S)"
    using assms by (intro osm_correct) simp_all
  then show ?thesis
    by (auto simp: spec_osm_def list_all_iff)
qed

lemma tetrahedron_shape: "coxeter_shape tetrahedron"
  by (simp add: coxeter_shape_def tetrahedron_def)

theorem get_orthogonal_stabilizing_mirrors_exact_witness:
  "get_orthogonal_stabilizing_mirrors tetrahedron [0] = Inr [[2]]
   \<and> get_orthogonal_stabilizing_mirrors tetrahedron [0, 1] = Inr []"
proof -
  have a: "\<forall>x\<in>set [0]. x < length (coxeter_matrix tetrahedron)"
    and b: "\<forall>x\<in>set [0, 1]. x < length (coxeter_matrix tetrahedron)"
    by (simp_all add: tetrahedron_def)
  from get_orthogonal_stabilizing_mirrors_exact [OF tetrahedron_shape a]
       get_orthogonal_stabilizing_mirrors_exact [OF tetrahedron_shape b]
  show ?thesis
    by (simp add: tetrahedron_def)
qed

subsection \<open>Vertices\<close>

lemma transform_in:
  "(\<And>g. g \<in> set w \<Longrightarrow> g < length (reflections P)) \<Longrightarrow>
     transform E P v w = Inr (spec_transform E P v w)"
  by (induction w arbitrary: v) (simp_all add: spec_transform_def)

lemma transform_reflections:
  "reflections P = reflections Q \<Longrightarrow> transform E P v w = transform E Q v w"
  by (induction w arbitrary: v) simp_all

lemma vgens_enumerate:
  "map (\<lambda>(i, a). [i]) (filter (\<lambda>(i, a). \<not> a) (enumerate 0 xs)) =
     map (\<lambda>i. [i]) (filter (\<lambda>i. \<not> xs ! i) [0..<length xs])"
  by (simp add: enumerate_nth filter_map comp_def)

text \<open>
  Claim C3. \<^verbatim>\<open>BasePolytope.get_vertices\<close> runs the coset enumerator with exactly the
  generators of the inactive mirrors as stabilizer. When the generators in the returned
  words index the reflections, it returns; the number of vertices is the number of
  words, and the coordinate stored for vertex \<open>k\<close> is \<^verbatim>\<open>transform(init_v, vwords[k])\<close>,
  the initial point multiplied by the reflections of the word in word order.
\<close>

theorem get_vertices_round_trip:
  assumes "vgens = map (\<lambda>i. [i]) (filter (\<lambda>i. \<not> active P ! i) [0..<length (active P)])"
    and "t = CosetTable E (symmetry_gens P) (symmetry_rels P) vgens True"
    and "\<forall>w\<in>set (get_words t). \<forall>g\<in>set w. g < length (reflections P)"
  shows "\<exists>P'. get_vertices E P = Inr P'
     \<and> vtable P' = Some t \<and> vwords P' = Some (get_words t)
     \<and> num_vertices P' = length (get_words t)
     \<and> length (vertices_coords P') = num_vertices P'
     \<and> (\<forall>k < num_vertices P'.
          transform E P' (init_v P') (get_words t ! k) = Inr (vertices_coords P' ! k)
          \<and> vertices_coords P' ! k = spec_transform E P (init_v P) (get_words t ! k))"
proof -
  let ?P1 = "P\<lparr> vtable := Some t, vwords := Some (get_words t),
                 num_vertices := length (get_words t) \<rparr>"
  let ?cs = "map (spec_transform E P (init_v P)) (get_words t)"
  have tr: "transform E P (init_v P) w = Inr (spec_transform E P (init_v P) w)"
    if "w \<in> set (get_words t)" for w
    using assms(3) that by (intro transform_in) simp
  have tr1: "transform E ?P1 (init_v ?P1) w = Inr (spec_transform E P (init_v P) w)"
    if "w \<in> set (get_words t)" for w
    using tr [OF that] transform_reflections [of ?P1 P E "init_v P" w] by simp
  have em: "emap (transform E ?P1 (init_v ?P1)) (get_words t) = Inr ?cs"
    by (rule emap_Inr) (rule tr1)
  have gv: "get_vertices E P = Inr (?P1\<lparr> vertices_coords := ?cs \<rparr>)"
    unfolding get_vertices_def vgens_enumerate Let_def
    using em by (simp add: assms(1,2))
  have "transform E (?P1\<lparr> vertices_coords := ?cs \<rparr>) (init_v P) (get_words t ! k)
          = Inr (spec_transform E P (init_v P) (get_words t ! k))"
    if "k < length (get_words t)" for k
    using tr [of "get_words t ! k"] that
      transform_reflections [of "?P1\<lparr> vertices_coords := ?cs \<rparr>" P E "init_v P" "get_words t ! k"]
    by simp
  with gv show ?thesis by simp
qed

theorem get_vertices_round_trip_witness:
  "get_vertices example_env
     (tetrahedron\<lparr>vtable := None, vwords := None, num_vertices := 0, vertices_coords := []\<rparr>)
   = Inr tetrahedron
   \<and> transform example_env tetrahedron (init_v tetrahedron) [0, 1, 2] = Inr [1 / 2, 1 / 2, 1 / 2]"
proof -
  let ?P = "tetrahedron\<lparr>vtable := None, vwords := None, num_vertices := 0, vertices_coords := []\<rparr>"
  let ?t = "table_of [[], [0], [0, 1], [0, 1, 2]] [[1, 0, 0], [0, 2, 1], [2, 1, 3], [3, 3, 2]]"
  have a: "[[1], [2]] = map (\<lambda>i. [i]) (filter (\<lambda>i. \<not> active ?P ! i) [0..<length (active ?P)])"
    by (simp add: tetrahedron_def upt_rec)
  have b: "?t = CosetTable example_env (symmetry_gens ?P) (symmetry_rels ?P) [[1], [2]] True"
    by (simp add: example_env_def example_CosetTable_def)
  have c: "\<forall>w\<in>set (get_words ?t). \<forall>g\<in>set w. g < length (reflections ?P)"
    by (simp add: table_of_def tetrahedron_def)
  from get_vertices_round_trip [OF a b c]
  obtain P' where P': "get_vertices example_env ?P = Inr P'"
    and k: "\<forall>k < num_vertices P'.
          transform example_env P' (init_v P') (get_words ?t ! k) = Inr (vertices_coords P' ! k)"
    and n: "num_vertices P' = length (get_words ?t)"
    by blast
  have e: "get_vertices example_env ?P = Inr tetrahedron"
    by (simp add: get_vertices_def example_env_def Let_def tetrahedron_def example_CosetTable_def
          table_of_def enumerate_eq_zip upt_rec)
  with P' have eq: "P' = tetrahedron" by simp
  have "3 < num_vertices P'" using n by (simp add: table_of_def)
  with k have "transform example_env P' (init_v P') (get_words ?t ! 3) = Inr (vertices_coords P' ! 3)"
    by blast
  moreover have "get_words ?t ! 3 = [0, 1, 2]" by (simp add: table_of_def)
  moreover have "vertices_coords tetrahedron ! 3 = [1 / 2, 1 / 2, 1 / 2]"
    by (simp add: tetrahedron_def)
  ultimately show ?thesis using e eq by simp
qed

subsection \<open>The transforms of the snub classes\<close>

lemma snub24cell_init: "Snub24Cell_init example_env4 = Inr snub24cell"
  by (simp add: Snub24Cell_init_def Polychora_init_def BasePolytope_init_def example_env4_def
        example_matrix_D4 Let_def matrix_at_def tuple_times_def snub24cell_def
        example_reflection4_def eval_nat_numeral upt_rec)

lemma Snub_transform_expand:
  "Snub_transform E P v w =
     transform E P v (concat (map (\<lambda>g. if g = 0 then [0, 1] else [1, 2]) w))"
  by (induction w arbitrary: v) simp_all

lemma Snub24Cell_transform_expand:
  "Snub24Cell_transform E P v w =
     transform E P v
       (concat (map (\<lambda>g. if g = 0 then [0, 1] else if g = 2 then [1, 2] else [1, 3]) w))"
  by (induction w arbitrary: v) simp_all

text \<open>
  Claim C10, as the code has it. In every position of a word, \<^verbatim>\<open>Snub.transform\<close>
  expands generator 0 to the reflections \<open>\<rho>0, \<rho>1\<close> and every other generator, the formal
  inverses 1 and 3 included, to \<open>\<rho>1, \<rho>2\<close>; \<^verbatim>\<open>Snub24Cell.transform\<close> expands 0 to
  \<open>\<rho>0, \<rho>1\<close>, 2 to \<open>\<rho>1, \<rho>2\<close> and every other generator, 1, 3 and 5 included, to
  \<open>\<rho>1, \<rho>3\<close>. So the words \<open>(1,)\<close> and \<open>(2,)\<close> transform every vector alike, and the
  relator \<open>(0, 1)\<close> does not act as the identity: with the reflections of the diagram
  \<open>(3, 2, 3)\<close>, which a snub object of that diagram holds, it sends \<open>(1, 2, 3)\<close> to
  \<open>(-1, -2, 3)\<close>, where the presentation's \<open>r r\<^sup>-\<^sup>1\<close> leaves it fixed. On every word that
  avoids the inverse generators the transform is the one the presentation prescribes.
\<close>

theorem snub_transform_expansion:
  "Snub_transform E P v w =
     transform E P v (concat (map (\<lambda>g. if g = 0 then [0, 1] else [1, 2]) w))
   \<and> Snub24Cell_transform E P v w =
     transform E P v
       (concat (map (\<lambda>g. if g = 0 then [0, 1] else if g = 2 then [1, 2] else [1, 3]) w))
   \<and> Snub_transform E P v [1] = Snub_transform E P v [2]
   \<and> Snub_transform example_env tetrahedron [1, 2, 3] [0, 1] = Inr [- 1, - 2, 3]
   \<and> transform example_env tetrahedron [1, 2, 3] (concat (map spec_rotation_word [0, 1]))
       = Inr [1, 2, 3]
   \<and> ((\<forall>g\<in>set w. g = 0 \<or> g = 2) \<longrightarrow>
        Snub_transform E P v w = transform E P v (concat (map spec_rotation_word w)))
   \<and> ((\<forall>g\<in>set w. g = 0 \<or> g = 2 \<or> g = 4) \<longrightarrow>
        Snub24Cell_transform E P v w = transform E P v (concat (map spec_rotation_word w)))"
proof (intro conjI impI)
  show "Snub_transform E P v w =
     transform E P v (concat (map (\<lambda>g. if g = 0 then [0, 1] else [1, 2]) w))"
    by (rule Snub_transform_expand)
  show "Snub24Cell_transform E P v w =
     transform E P v
       (concat (map (\<lambda>g. if g = 0 then [0, 1] else if g = 2 then [1, 2] else [1, 3]) w))"
    by (rule Snub24Cell_transform_expand)
  show "Snub_transform E P v [1] = Snub_transform E P v [2]"
    by simp
  show "Snub_transform example_env tetrahedron [1, 2, 3] [0, 1] = Inr [- 1, - 2, 3]"
    by (simp add: example_env_def tetrahedron_def)
  show "transform example_env tetrahedron [1, 2, 3] (concat (map spec_rotation_word [0, 1]))
       = Inr [1, 2, 3]"
    by (simp add: spec_rotation_word_def example_env_def tetrahedron_def)
next
  assume h: "\<forall>g\<in>set w. g = 0 \<or> g = 2"
  have "map spec_rotation_word w = map (\<lambda>g. if g = 0 then [0, 1] else [1, 2]) w"
    using h by (intro map_cong) (auto simp: spec_rotation_word_def)
  then show "Snub_transform E P v w = transform E P v (concat (map spec_rotation_word w))"
    by (simp only: Snub_transform_expand)
next
  assume h: "\<forall>g\<in>set w. g = 0 \<or> g = 2 \<or> g = 4"
  have "map spec_rotation_word w
      = map (\<lambda>g. if g = 0 then [0, 1] else if g = 2 then [1, 2] else [1, 3]) w"
    using h by (intro map_cong) (auto simp: spec_rotation_word_def)
  then show "Snub24Cell_transform E P v w = transform E P v (concat (map spec_rotation_word w))"
    by (simp only: Snub24Cell_transform_expand)
qed

theorem snub_transform_expansion_witness:
  "Snub_transform example_env tetrahedron [1, 2, 3] [2, 0] = Inr [- 1, 2, - 3]
   \<and> transform example_env tetrahedron [1, 2, 3] (concat (map spec_rotation_word [2, 0]))
       = Inr [- 1, 2, - 3]
   \<and> Snub24Cell_transform example_env4 snub24cell [3, 2, 1, 0] [0, 4, 2] = Inr [2, 0, - 1, 3]
   \<and> transform example_env4 snub24cell [3, 2, 1, 0] (concat (map spec_rotation_word [0, 4, 2]))
       = Inr [2, 0, - 1, 3]
   \<and> Snub24Cell_transform example_env4 snub24cell [3, 2, 1, 0] [5] = Inr [3, 1, 0, - 2]"
proof -
  have a: "\<forall>g\<in>set [2, 0::nat]. g = 0 \<or> g = 2" by simp
  have b: "\<forall>g\<in>set [0, 4, 2::nat]. g = 0 \<or> g = 2 \<or> g = 4" by simp
  have v3: "transform example_env tetrahedron [1, 2, 3] (concat (map spec_rotation_word [2, 0]))
       = Inr [- 1, 2, - 3]"
    by (simp add: spec_rotation_word_def example_env_def tetrahedron_def)
  have v4: "transform example_env4 snub24cell [3, 2, 1, 0]
       (concat (map spec_rotation_word [0, 4, 2])) = Inr [2, 0, - 1, 3]"
    by (simp add: spec_rotation_word_def example_env4_def snub24cell_def)
  have v5: "transform example_env4 snub24cell [3, 2, 1, 0]
       (concat (map (\<lambda>g. if g = 0 then [0, 1] else if g = 2 then [1, 2] else [1, 3])
                  [5::nat]))
       = Inr [3, 1, 0, - 2]"
    by (simp add: example_env4_def snub24cell_def)
  note T3 = snub_transform_expansion [of example_env tetrahedron "[1, 2, 3]" "[2, 0]"]
  note T4 = snub_transform_expansion [of example_env4 snub24cell "[3, 2, 1, 0]" "[0, 4, 2]"]
  note T5 = snub_transform_expansion [of example_env4 snub24cell "[3, 2, 1, 0]" "[5]"]
  note s3 = T3 [THEN conjunct2, THEN conjunct2, THEN conjunct2, THEN conjunct2,
                THEN conjunct2, THEN conjunct1, THEN mp, OF a, THEN trans, OF v3]
  note s4 = T4 [THEN conjunct2, THEN conjunct2, THEN conjunct2, THEN conjunct2,
                THEN conjunct2, THEN conjunct2, THEN mp, OF b, THEN trans, OF v4]
  note s5 = T5 [THEN conjunct2, THEN conjunct1, THEN trans, OF v5]
  show ?thesis
    by (intro conjI) (rule s3 v3 s4 v4 s5)+
qed

text \<open>
  The claim as stated says that the transform agrees with the presentation only on
  words avoiding the inverse generators. The word \<open>(1, 1, 1)\<close> is made of the inverse
  generator 1, and for the diagram \<open>(3, 2, 3)\<close> the transform agrees with the presentation
  on it: \<open>(\<rho>1 \<rho>2)^3\<close> and \<open>(\<rho>1 \<rho>0)^3\<close> both fix the vector \<open>(1, 2, 3)\<close>.
\<close>

theorem snub_transform_only_counterexample:
  "Snub_transform example_env tetrahedron [1, 2, 3] [1, 1, 1] = Inr [1, 2, 3]
   \<and> transform example_env tetrahedron [1, 2, 3] (concat (map spec_rotation_word [1, 1, 1]))
       = Inr [1, 2, 3]
   \<and> Snub_transform example_env tetrahedron [1, 2, 3] [1, 1, 1]
       = transform example_env tetrahedron [1, 2, 3] (concat (map spec_rotation_word [1, 1, 1]))"
  by (simp add: spec_rotation_word_def example_env_def tetrahedron_def)

subsection \<open>The projection of the 5D polytopes\<close>

text \<open>
  Claim C6. \<^verbatim>\<open>proj4d\<close> is claimed to divide by \<open>pole - v[4]\<close> for the pole it is
  given. The body uses the literal 1.3 and never reads its argument: with pole 2 the
  vertex \<open>(0, 0, 0, 1, 0)\<close> goes to \<open>(0, 0, 0, 10/13)\<close>, not to \<open>(0, 0, 0, 1/2)\<close>, and
  the result is the same for every pole.
\<close>

theorem proj4d_ignores_pole:
  "proj4d (P\<lparr>vertices_coords := [[0, 0, 0, 1, 0]]\<rparr>) 2
     = Inr (P\<lparr>vertices_coords := [[0, 0, 0, 10 / 13]]\<rparr>)
   \<and> vertices_coords (P\<lparr>vertices_coords := [[0, 0, 0, 10 / 13]]\<rparr>) \<noteq> [[0, 0, 0, 1 / (2 - 0)]]
   \<and> proj4d P pole = proj4d P 0"
  by (simp add: proj4d_def py_last_def)

subsection \<open>Edges\<close>

lemma move_in: "vtable P = Some t \<Longrightarrow> move P v w = Inr (move_t t v w)"
  by (induction w arbitrary: v) (simp_all add: move_t_def)


lemma coxeter_shape_edges [simp]:
  "coxeter_shape (P\<lparr>edge_indices := ei, num_edges := ne\<rparr>) = coxeter_shape P"
  by (simp add: coxeter_shape_def)

lemma spec_osm_edges [simp]:
  "spec_osm (P\<lparr>edge_indices := ei, num_edges := ne\<rparr>) S = spec_osm P S"
  by (simp add: spec_osm_def)

lemma edges_of_type_in:
  assumes "coxeter_shape P" and "vtable P = Some t" and "i < length (coxeter_matrix P)"
  shows "edges_of_type E i (P\<lparr>edge_indices := ei, num_edges := ne\<rparr>) =
     Inr (P\<lparr>edge_indices := ei @ [spec_edge_orbit E P t i],
             num_edges := ne + length (spec_edge_orbit E P t i)\<rparr>)"
proof -
  let ?Q = "P\<lparr>edge_indices := ei, num_edges := ne\<rparr>"
  let ?ws = "get_words (CosetTable E (symmetry_gens P) (symmetry_rels P) ([i] # spec_osm P [i]) True)"
  have osm: "get_orthogonal_stabilizing_mirrors ?Q [i] = Inr (spec_osm P [i])"
    using osm_correct [of ?Q "[i]"] assms(1,3) by simp
  have mv: "move ?Q v w = Inr (move_t t v w)" for v w
    using assms(2) by (intro move_in) simp
  have em: "emap (\<lambda>word. ebind (move ?Q 0 word) (\<lambda>v1.
                ebind (move ?Q 0 (i # word)) (\<lambda>v2. Inr (v1, v2)))) ?ws
      = Inr (map (\<lambda>w. (move_t t 0 w, move_t t 0 (i # w))) ?ws)"
    by (rule emap_Inr) (simp only: mv ebind_Inr)
  show ?thesis
    unfolding edges_of_type_def osm
    using em by (simp add: Let_def spec_edge_orbit_def)
qed

lemma get_edges_loop:
  assumes "coxeter_shape P" and "vtable P = Some t"
  shows "(\<And>i. i \<in> set js \<Longrightarrow> i < length (coxeter_matrix P)) \<Longrightarrow>
     efold (\<lambda>(i, a) Q. if a then edges_of_type E i Q else Inr Q)
        (map (\<lambda>i. (i, active P ! i)) js) (P\<lparr>edge_indices := ei, num_edges := ne\<rparr>) =
     Inr (P\<lparr>edge_indices := ei @ map (spec_edge_orbit E P t) (filter (\<lambda>i. active P ! i) js),
             num_edges := ne + sum_list (map (\<lambda>i. length (spec_edge_orbit E P t i))
                                           (filter (\<lambda>i. active P ! i) js))\<rparr>)"
proof (induction js arbitrary: ei ne)
  case Nil
  then show ?case by simp
next
  case (Cons i js)
  have i: "i < length (coxeter_matrix P)" using Cons.prems by simp
  have rest: "\<And>k. k \<in> set js \<Longrightarrow> k < length (coxeter_matrix P)" using Cons.prems by simp
  show ?case
  proof (cases "active P ! i")
    case True
    then show ?thesis
      using edges_of_type_in [OF assms i] Cons.IH [OF rest]
      by (simp add: add.assoc)
  next
    case False
    then show ?thesis
      using Cons.IH [OF rest] by simp
  qed
qed

text \<open>
  Claim C2. For a polytope of the Coxeter shape whose vertex table is built,
  \<^verbatim>\<open>get_edges\<close> returns and appends one edge orbit for each active mirror, in order,
  and none for an inactive one. The orbit of mirror \<open>i\<close> comes from the coset words for
  the stabilizer generators \<open>(i,)\<close> followed by the orthogonal stabilizing mirrors of
  \<open>(i,)\<close>; the word \<open>w\<close> gives the edge \<open>(move(0, w), move(0, (i,) + w))\<close>.
\<close>

theorem get_edges_orbits:
  assumes "coxeter_shape P" and "vtable P = Some t"
  shows "get_edges E P =
     Inr (P\<lparr>edge_indices := edge_indices P @
               map (spec_edge_orbit E P t) (filter (\<lambda>i. active P ! i) [0..<length (active P)]),
             num_edges := num_edges P +
               sum_list (map (\<lambda>i. length (spec_edge_orbit E P t i))
                           (filter (\<lambda>i. active P ! i) [0..<length (active P)]))\<rparr>)
   \<and> (\<forall>i < length (active P).
        get_orthogonal_stabilizing_mirrors P [i] = Inr (spec_osm P [i])
        \<and> spec_edge_orbit E P t i =
            map (\<lambda>w. (move_t t 0 w, move_t t 0 (i # w)))
              (get_words (CosetTable E (symmetry_gens P) (symmetry_rels P)
                            ([i] # spec_osm P [i]) True)))
   \<and> (\<forall>v w. move P v w = Inr (move_t t v w))"
proof -
  have len: "length (active P) = length (coxeter_matrix P)"
    using assms(1) by (simp add: coxeter_shape_def)
  have "efold (\<lambda>(i, a) Q. if a then edges_of_type E i Q else Inr Q)
        (map (\<lambda>i. (i, active P ! i)) [0..<length (active P)])
        (P\<lparr>edge_indices := edge_indices P, num_edges := num_edges P\<rparr>) =
     Inr (P\<lparr>edge_indices := edge_indices P @
               map (spec_edge_orbit E P t) (filter (\<lambda>i. active P ! i) [0..<length (active P)]),
             num_edges := num_edges P +
               sum_list (map (\<lambda>i. length (spec_edge_orbit E P t i))
                           (filter (\<lambda>i. active P ! i) [0..<length (active P)]))\<rparr>)"
    by (rule get_edges_loop [OF assms]) (simp add: len)
  then have loop: "get_edges E P =
     Inr (P\<lparr>edge_indices := edge_indices P @
               map (spec_edge_orbit E P t) (filter (\<lambda>i. active P ! i) [0..<length (active P)]),
             num_edges := num_edges P +
               sum_list (map (\<lambda>i. length (spec_edge_orbit E P t i))
                           (filter (\<lambda>i. active P ! i) [0..<length (active P)]))\<rparr>)"
    by (simp add: get_edges_def enumerate_nth)
  have osm: "get_orthogonal_stabilizing_mirrors P [i] = Inr (spec_osm P [i])"
    if "i < length (active P)" for i
    using osm_correct [of P "[i]"] assms(1) that len by simp
  show ?thesis
    using loop osm move_in [OF assms(2)] by (simp add: spec_edge_orbit_def)
qed

theorem get_edges_orbits_witness:
  "get_edges example_env tetrahedron =
     Inr (tetrahedron\<lparr>edge_indices := [[(0, 1), (0, 2), (1, 2), (0, 3), (1, 3), (2, 3)]],
                      num_edges := 6\<rparr>)"
proof -
  define t0 where "t0 = table_of [[], [0], [0, 1], [0, 1, 2]]
                      [[1, 0, 0], [0, 2, 1], [2, 1, 3], [3, 3, 2]]"
  have vt: "vtable tetrahedron = Some t0"
    by (simp add: tetrahedron_def t0_def)
  have act: "filter (\<lambda>i. active tetrahedron ! i) [0..<length (active tetrahedron)] = [0]"
    by (simp add: tetrahedron_def upt_rec)
  have osm: "spec_osm tetrahedron [0] = [[2]]"
    by (simp add: spec_osm_def tetrahedron_def)
  have orb: "spec_edge_orbit example_env tetrahedron t0 0
     = [(0, 1), (0, 2), (1, 2), (0, 3), (1, 3), (2, 3)]"
    by (simp add: spec_edge_orbit_def osm example_env_def example_CosetTable_def table_of_def
          move_t_def t0_def)
  have "edge_indices tetrahedron = []" "num_edges tetrahedron = 0"
    by (simp_all add: tetrahedron_def)
  with get_edges_orbits [OF tetrahedron_shape vt, of example_env] show ?thesis
    by (simp add: act orb)
qed

subsection \<open>Faces\<close>

lemma coxeter_shape_faces [simp]:
  "coxeter_shape (P\<lparr>face_indices := fi, num_faces := nf\<rparr>) = coxeter_shape P"
  by (simp add: coxeter_shape_def)

lemma spec_osm_faces [simp]:
  "spec_osm (P\<lparr>face_indices := fi, num_faces := nf\<rparr>) S = spec_osm P S"
  by (simp add: spec_osm_def)









end
